theory Spec2Isabelle
  imports Main
begin

section \<open>JavaScript values\<close>

text \<open>
  The proxy (src/index.ts) never validates what it parses: a request is whatever
  \<^verbatim>\<open>JSON.parse\<close> returned, cast to \<^verbatim>\<open>RPCRequest\<close>, and a forwarded response is
  whatever \<^verbatim>\<open>response.json()\<close> returned. Both are therefore modelled as untyped
  JavaScript values. \<open>JUndefined\<close> is the value of a property that is absent.
  Numbers are only carried around by the proxy (an \<open>id\<close>, an error code), never
  computed with; they are modelled as integers.
\<close>

datatype jsval =
    JUndefined
  | JNull
  | JBool bool
  | JNum int
  | JStr string
  | JArr "jsval list"
  | JObj "(string \<times> jsval) list"

text \<open>
  What a \<^verbatim>\<open>catch\<close> clause receives: an instance of \<^verbatim>\<open>Error\<close> (with its message) or
  any other thrown value.
\<close>

datatype exn = JsError string | Thrown jsval

definition nullish :: "jsval \<Rightarrow> bool" where
  "nullish v = (v = JUndefined \<or> v = JNull)"

text \<open>An object is the list of its own properties, each name once. Reading a named
  property of a value that is not nullish: of the values \<^verbatim>\<open>JSON.parse\<close> produces,
  only objects have properties with the names read here
  (\<^verbatim>\<open>method\<close>, \<^verbatim>\<open>params\<close>, \<^verbatim>\<open>id\<close>, \<^verbatim>\<open>domain\<close>, \<^verbatim>\<open>types\<close>, \<^verbatim>\<open>message\<close>).\<close>

fun get_field :: "jsval \<Rightarrow> string \<Rightarrow> jsval" where
  "get_field (JObj fs) k = (case map_of fs k of None \<Rightarrow> JUndefined | Some v \<Rightarrow> v)"
| "get_field v k = JUndefined"

text \<open>The property key of an array index: its decimal digits.\<close>

definition digit :: "nat \<Rightarrow> char" where
  "digit d = ''0123456789'' ! d"

fun index_key :: "nat \<Rightarrow> string" where
  "index_key i = (if i < 10 then [] else index_key (i div 10)) @ [digit (i mod 10)]"

section \<open>Configuration, collaborators and state\<close>

record TurnkeyConfig =
  baseUrl :: string
  organizationId :: string
  privateKeyId :: string
  apiPublicKey :: string
  apiPrivateKey :: string

text \<open>\<^verbatim>\<open>enableLogging?\<close> and \<^verbatim>\<open>enableCors?\<close> are optional: \<open>None\<close> is an absent field.\<close>

record ProxyConfig =
  port :: nat
  upstreamRpcUrl :: string
  turnkeyConfig :: TurnkeyConfig
  enableLogging :: "bool option"
  enableCors :: "bool option"

definition truthy :: "bool option \<Rightarrow> bool" where
  "truthy b = (b = Some True)"

record RequestInit =
  init_method :: string
  init_headers :: "(string \<times> string) list"
  init_body :: string

text \<open>Every call the proxy makes to a remote service, in the order made.\<close>

datatype call =
    CallGetAddress
  | CallSendTransaction jsval
  | CallSignTransaction jsval
  | CallSignMessage jsval
  | CallSignTypedData jsval jsval jsval
  | CallFetch string RequestInit

record TransactionResponse =
  hash :: string

text \<open>
  The signing client (\<^verbatim>\<open>TurnkeySigner\<close>) is a remote service: each operation either
  returns or throws, and its answer may depend on everything that was asked of the
  remote services before (the first argument).
\<close>

record TurnkeySigner =
  getAddress :: "call list \<Rightarrow> exn + string"
  sendTransaction :: "call list \<Rightarrow> jsval \<Rightarrow> exn + TransactionResponse"
  signTransaction :: "call list \<Rightarrow> jsval \<Rightarrow> exn + string"
  signMessage :: "call list \<Rightarrow> jsval \<Rightarrow> exn + string"
  signTypedData :: "call list \<Rightarrow> jsval \<Rightarrow> jsval \<Rightarrow> jsval \<Rightarrow> exn + string"

text \<open>The \<^verbatim>\<open>Response\<close> of \<^verbatim>\<open>fetch\<close>; the proxy reads its body only.\<close>

record Response =
  resp_status :: nat
  resp_text :: string

text \<open>
  The JavaScript runtime: \<^verbatim>\<open>fetch\<close> (throws on a transport failure), \<^verbatim>\<open>JSON.parse\<close> on
  a string (throws a SyntaxError on text that is not JSON), \<^verbatim>\<open>JSON.stringify\<close>, the
  conversion \<^verbatim>\<open>String(v)\<close> of a value that is not a string, and the message the engine
  gives the TypeError it throws when a property (second argument) is read from \<^verbatim>\<open>null\<close> or
  \<^verbatim>\<open>undefined\<close> (first argument).
\<close>

record runtime =
  fetch :: "call list \<Rightarrow> string \<Rightarrow> RequestInit \<Rightarrow> exn + Response"
  JSON_parse :: "string \<Rightarrow> exn + jsval"
  JSON_stringify :: "jsval \<Rightarrow> string"
  String_of :: "jsval \<Rightarrow> string"
  TypeError_message :: "jsval \<Rightarrow> string \<Rightarrow> string"

text \<open>The TypeError thrown when property \<open>k\<close> is read from the nullish value \<open>v\<close>; it is
  an instance of \<^verbatim>\<open>Error\<close>.\<close>

definition read_TypeError :: "runtime \<Rightarrow> jsval \<Rightarrow> string \<Rightarrow> exn" where
  "read_TypeError rt v k = JsError (TypeError_message rt v k)"

text \<open>\<^verbatim>\<open>v[i]\<close>: a TypeError on \<^verbatim>\<open>null\<close> and \<^verbatim>\<open>undefined\<close>, the element of an array, the
  one-character string of a string, the property named by the index of an object, and
  \<^verbatim>\<open>undefined\<close> out of range and on numbers and booleans.\<close>

fun get_index :: "runtime \<Rightarrow> jsval \<Rightarrow> nat \<Rightarrow> exn + jsval" where
  "get_index rt JUndefined i = Inl (read_TypeError rt JUndefined (index_key i))"
| "get_index rt JNull i = Inl (read_TypeError rt JNull (index_key i))"
| "get_index rt (JArr xs) i = Inr (if i < length xs then xs ! i else JUndefined)"
| "get_index rt (JStr s) i = Inr (if i < length s then JStr [s ! i] else JUndefined)"
| "get_index rt (JObj fs) i = Inr (get_field (JObj fs) (index_key i))"
| "get_index rt v i = Inr JUndefined"

definition ToString :: "runtime \<Rightarrow> jsval \<Rightarrow> string" where
  "ToString rt v = (case v of JStr s \<Rightarrow> s | _ \<Rightarrow> String_of rt v)"

text \<open>The fields of the class that the request path reads.\<close>

record TurnkeyRpcProxy =
  config :: ProxyConfig
  turnkeySigner :: TurnkeySigner

datatype level = LError | LWarn | LInfo | LHttp | LVerbose | LDebug | LSilly

fun priority :: "level \<Rightarrow> nat" where
  "priority LError = 0"
| "priority LWarn = 1"
| "priority LInfo = 2"
| "priority LHttp = 3"
| "priority LVerbose = 4"
| "priority LDebug = 5"
| "priority LSilly = 6"

datatype meta_val = MVal jsval | MErr exn | MText string

record log_entry =
  entry_level :: level
  entry_message :: string
  entry_meta :: "(string \<times> meta_val) list"

text \<open>The state a request can change: the calls made to the remote services and the
  lines written by the logger.\<close>

record pstate =
  calls :: "call list"
  logged :: "log_entry list"

text \<open>The logger is created with level \<^verbatim>\<open>config.enableLogging ? 'info' : 'error'\<close> and
  writes the entries whose level is at most as verbose.\<close>

definition logger_level :: "ProxyConfig \<Rightarrow> level" where
  "logger_level cfg = (if truthy (enableLogging cfg) then LInfo else LError)"

definition logger_log ::
  "TurnkeyRpcProxy \<Rightarrow> level \<Rightarrow> string \<Rightarrow> (string \<times> meta_val) list \<Rightarrow> pstate \<Rightarrow> pstate" where
  "logger_log this lvl msg meta s =
     (if priority lvl \<le> priority (logger_level (config this))
      then s\<lparr>logged := logged s @
             [\<lparr>entry_level = lvl, entry_message = msg, entry_meta = meta\<rparr>]\<rparr>
      else s)"

definition record_call :: "call \<Rightarrow> pstate \<Rightarrow> pstate" where
  "record_call c s = s\<lparr>calls := calls s @ [c]\<rparr>"

section \<open>forwardToUpstream\<close>

definition upstream_init :: "runtime \<Rightarrow> jsval \<Rightarrow> RequestInit" where
  "upstream_init rt request =
     \<lparr>init_method = ''POST'',
      init_headers = [(''Content-Type'', ''application/json'')],
      init_body = JSON_stringify rt request\<rparr>"

text \<open>The argument of \<^verbatim>\<open>logger.debug\<close> reads \<^verbatim>\<open>request.method\<close> before the \<^verbatim>\<open>try\<close> is
  entered; the \<^verbatim>\<open>catch\<close> clause logs and throws again.\<close>

definition forwardToUpstream ::
  "TurnkeyRpcProxy \<Rightarrow> runtime \<Rightarrow> jsval \<Rightarrow> pstate \<Rightarrow> (exn + jsval) \<times> pstate" where
  "forwardToUpstream this rt request s =
     (if nullish request then (Inl (read_TypeError rt request ''method''), s)
      else
        (let s1 = logger_log this LDebug ''Forwarding request to upstream''
                    [(''method'', MVal (get_field request ''method''))] s;
             url = upstreamRpcUrl (config this);
             init = upstream_init rt request;
             s2 = record_call (CallFetch url init) s1
         in case fetch rt (calls s1) url init of
              Inl error \<Rightarrow>
                (Inl error,
                 logger_log this LError ''Error forwarding to upstream''
                   [(''error'', MErr error)] s2)
            | Inr response \<Rightarrow>
                (case JSON_parse rt (resp_text response) of
                   Inl error \<Rightarrow>
                     (Inl error,
                      logger_log this LError ''Error forwarding to upstream''
                        [(''error'', MErr error)] s2)
                 | Inr body \<Rightarrow> (Inr body, s2))))"

section \<open>handleRequest\<close>

definition success_response :: "jsval \<Rightarrow> jsval \<Rightarrow> jsval" where
  "success_response result id' =
     JObj [(''jsonrpc'', JStr ''2.0''), (''result'', result), (''id'', id')]"

text \<open>\<^verbatim>\<open>error instanceof Error ? error.message : String(error)\<close>\<close>

definition error_data :: "runtime \<Rightarrow> exn \<Rightarrow> string" where
  "error_data rt error = (case error of JsError m \<Rightarrow> m | Thrown v \<Rightarrow> ToString rt v)"

definition internal_error_response :: "runtime \<Rightarrow> exn \<Rightarrow> jsval \<Rightarrow> jsval" where
  "internal_error_response rt error id' =
     JObj [(''jsonrpc'', JStr ''2.0''),
           (''error'', JObj [(''code'', JNum (- 32603)),
                             (''message'', JStr ''Internal error''),
                             (''data'', JStr (error_data rt error))]),
           (''id'', id')]"

text \<open>The body of the \<^verbatim>\<open>try\<close> block: \<open>Inr\<close> is the value it returns, \<open>Inl\<close> the
  exception that reaches the \<^verbatim>\<open>catch\<close> clause.\<close>

definition handleRequest_try ::
  "TurnkeyRpcProxy \<Rightarrow> runtime \<Rightarrow> jsval \<Rightarrow> jsval \<Rightarrow> jsval \<Rightarrow> jsval \<Rightarrow> pstate
     \<Rightarrow> (exn + jsval) \<times> pstate" where
  "handleRequest_try this rt request method params id' s =
     (if method = JStr ''eth_accounts'' then
        (case getAddress (turnkeySigner this) (calls s) of
           Inl e \<Rightarrow> (Inl e, record_call CallGetAddress s)
         | Inr address \<Rightarrow>
             (Inr (success_response (JArr [JStr address]) id'), record_call CallGetAddress s))
      else if method = JStr ''eth_sendTransaction'' then
        (case get_index rt params 0 of
           Inl e \<Rightarrow> (Inl e, s)
         | Inr p0 \<Rightarrow>
             (case sendTransaction (turnkeySigner this) (calls s) p0 of
                Inl e \<Rightarrow> (Inl e, record_call (CallSendTransaction p0) s)
              | Inr tx \<Rightarrow>
                  (Inr (success_response (JStr (hash tx)) id'),
                   logger_log this LInfo ''Transaction sent'' [(''hash'', MText (hash tx))]
                     (record_call (CallSendTransaction p0) s))))
      else if method = JStr ''eth_signTransaction'' then
        (case get_index rt params 0 of
           Inl e \<Rightarrow> (Inl e, s)
         | Inr p0 \<Rightarrow>
             (case signTransaction (turnkeySigner this) (calls s) p0 of
                Inl e \<Rightarrow> (Inl e, record_call (CallSignTransaction p0) s)
              | Inr signed \<Rightarrow>
                  (Inr (success_response (JStr signed) id'),
                   record_call (CallSignTransaction p0) s)))
      else if method = JStr ''eth_sign'' \<or> method = JStr ''personal_sign'' then
        (case get_index rt params 0 of
           Inl e \<Rightarrow> (Inl e, s)
         | Inr p0 \<Rightarrow>
             (case signMessage (turnkeySigner this) (calls s) p0 of
                Inl e \<Rightarrow> (Inl e, record_call (CallSignMessage p0) s)
              | Inr signature \<Rightarrow>
                  (Inr (success_response (JStr signature) id'),
                   record_call (CallSignMessage p0) s)))
      else if method = JStr ''eth_signTypedData'' \<or> method = JStr ''eth_signTypedData_v3''
              \<or> method = JStr ''eth_signTypedData_v4'' then
        (case get_index rt params 1 of
           Inl e \<Rightarrow> (Inl e, s)
         | Inr p1 \<Rightarrow>
             (case JSON_parse rt (ToString rt p1) of
                Inl e \<Rightarrow> (Inl e, s)
              | Inr typed \<Rightarrow>
                  if nullish typed then (Inl (read_TypeError rt typed ''domain''), s)
                  else
                    (let domain = get_field typed ''domain'';
                         types = get_field typed ''types'';
                         message = get_field typed ''message'';
                         c = CallSignTypedData domain types message
                     in case signTypedData (turnkeySigner this) (calls s) domain types message of
                          Inl e \<Rightarrow> (Inl e, record_call c s)
                        | Inr signature \<Rightarrow>
                            (Inr (success_response (JStr signature) id'), record_call c s))))
      else forwardToUpstream this rt request s)"

text \<open>
  \<^verbatim>\<open>handleRequest\<close>. The destructuring \<^verbatim>\<open>const { method, params, id } = request\<close> stands
  before the \<^verbatim>\<open>try\<close>: on \<^verbatim>\<open>null\<close> it throws out of the function (\<open>Inl\<close> of the
  result). Everything thrown inside the \<^verbatim>\<open>try\<close> becomes the error envelope.
\<close>

definition handleRequest ::
  "TurnkeyRpcProxy \<Rightarrow> runtime \<Rightarrow> jsval \<Rightarrow> pstate \<Rightarrow> (exn + jsval) \<times> pstate" where
  "handleRequest this rt request s =
     (if nullish request then (Inl (read_TypeError rt request ''method''), s)
      else
        (let method = get_field request ''method'';
             params = get_field request ''params'';
             id' = get_field request ''id'';
             s1 = logger_log this LInfo ''Incoming RPC request''
                    [(''method'', MVal method), (''id'', MVal id')] s
         in case handleRequest_try this rt request method params id' s1 of
              (Inr response, s2) \<Rightarrow> (Inr response, s2)
            | (Inl error, s2) \<Rightarrow>
                (Inr (internal_error_response rt error id'),
                 logger_log this LError ''Error handling request''
                   [(''method'', MVal method), (''id'', MVal id'), (''error'', MErr error)] s2)))"

section \<open>The HTTP listener of start\<close>

record IncomingMessage =
  req_method :: string
  req_chunks :: "string list"

record ServerResponse =
  statusCode :: nat
  headers :: "(string \<times> string) list"
  body :: string

definition new_response :: ServerResponse where
  "new_response = \<lparr>statusCode = 200, headers = [], body = []\<rparr>"

text \<open>\<^verbatim>\<open>res.setHeader\<close> replaces the header of that name or adds it. (The listener writes
  each header name with one spelling, so names are compared as written.)\<close>

fun set_header_list :: "string \<Rightarrow> string \<Rightarrow> (string \<times> string) list \<Rightarrow> (string \<times> string) list" where
  "set_header_list k v [] = [(k, v)]"
| "set_header_list k v ((k', v') # hs) =
     (if k' = k then (k, v) # hs else (k', v') # set_header_list k v hs)"

definition setHeader :: "string \<Rightarrow> string \<Rightarrow> ServerResponse \<Rightarrow> ServerResponse" where
  "setHeader k v res = res\<lparr>headers := set_header_list k v (headers res)\<rparr>"

text \<open>\<^verbatim>\<open>res.writeHead(status, headers)\<close> merges its headers into those already set,
  its own taking precedence.\<close>

definition writeHead :: "nat \<Rightarrow> (string \<times> string) list \<Rightarrow> ServerResponse \<Rightarrow> ServerResponse" where
  "writeHead status hs res =
     (fold (\<lambda>(k, v). setHeader k v) hs res)\<lparr>statusCode := status\<rparr>"

definition end_response :: "string \<Rightarrow> ServerResponse \<Rightarrow> ServerResponse" where
  "end_response data res = res\<lparr>body := data\<rparr>"

definition json_content :: "(string \<times> string) list" where
  "json_content = [(''Content-Type'', ''application/json'')]"

definition parse_error_envelope :: jsval where
  "parse_error_envelope =
     JObj [(''jsonrpc'', JStr ''2.0''),
           (''error'', JObj [(''code'', JNum (- 32700)), (''message'', JStr ''Parse error'')]),
           (''id'', JNull)]"

text \<open>The \<^verbatim>\<open>catch\<close> clause of the \<^verbatim>\<open>'end'\<close> callback.\<close>

definition start_catch ::
  "TurnkeyRpcProxy \<Rightarrow> runtime \<Rightarrow> string \<Rightarrow> exn \<Rightarrow> ServerResponse \<Rightarrow> pstate
     \<Rightarrow> ServerResponse \<times> pstate" where
  "start_catch this rt text error res s =
     (end_response (JSON_stringify rt parse_error_envelope) (writeHead 400 json_content res),
      logger_log this LError ''Error parsing request''
        [(''body'', MText text), (''error'', MErr error)] s)"

text \<open>The \<^verbatim>\<open>'end'\<close> callback: \<^verbatim>\<open>JSON.parse\<close> and \<^verbatim>\<open>handleRequest\<close> are inside one
  \<^verbatim>\<open>try\<close>.\<close>

definition start_on_end ::
  "TurnkeyRpcProxy \<Rightarrow> runtime \<Rightarrow> string \<Rightarrow> ServerResponse \<Rightarrow> pstate
     \<Rightarrow> ServerResponse \<times> pstate" where
  "start_on_end this rt text res s =
     (case JSON_parse rt text of
        Inl error \<Rightarrow> start_catch this rt text error res s
      | Inr request \<Rightarrow>
          (case handleRequest this rt request s of
             (Inl error, s1) \<Rightarrow> start_catch this rt text error res s1
           | (Inr response, s1) \<Rightarrow>
               (end_response (JSON_stringify rt response) (writeHead 200 json_content res), s1)))"

text \<open>The callback given to \<^verbatim>\<open>createServer\<close>; the body is the concatenation of the
  chunks received.\<close>

definition start_listener ::
  "TurnkeyRpcProxy \<Rightarrow> runtime \<Rightarrow> IncomingMessage \<Rightarrow> pstate \<Rightarrow> ServerResponse \<times> pstate" where
  "start_listener this rt req s =
     (let cors = truthy (enableCors (config this));
          res = (if cors
                 then setHeader ''Access-Control-Allow-Headers'' ''Content-Type''
                        (setHeader ''Access-Control-Allow-Methods'' ''POST, OPTIONS''
                          (setHeader ''Access-Control-Allow-Origin'' ''*'' new_response))
                 else new_response)
      in if cors \<and> req_method req = ''OPTIONS'' then (end_response [] (writeHead 200 [] res), s)
         else if req_method req \<noteq> ''POST'' then
           (end_response (JSON_stringify rt (JObj [(''error'', JStr ''Method not allowed'')]))
              (writeHead 405 json_content res), s)
         else start_on_end this rt (concat (req_chunks req)) res s)"

section \<open>Notions used by the properties\<close>

text \<open>The methods that have a \<^verbatim>\<open>case\<close> of their own in the \<^verbatim>\<open>switch\<close>.\<close>

definition intercepted :: "jsval \<Rightarrow> bool" where
  "intercepted method =
     (method \<in> JStr ` set [''eth_accounts'', ''eth_sendTransaction'', ''eth_signTransaction'',
        ''eth_sign'', ''personal_sign'', ''eth_signTypedData'', ''eth_signTypedData_v3'',
        ''eth_signTypedData_v4''])"

text \<open>A field is present in an envelope when reading it gives a value (written to the
  wire, \<^verbatim>\<open>JSON.stringify\<close> leaves out a property whose value is \<^verbatim>\<open>undefined\<close>).\<close>

definition has_field :: "jsval \<Rightarrow> string \<Rightarrow> bool" where
  "has_field v k = (get_field v k \<noteq> JUndefined)"

text \<open>The outcome of the \<^verbatim>\<open>try\<close> block of \<^verbatim>\<open>handleRequest\<close> for a request: \<open>Inl\<close> when
  the signing method or the forwarding threw.\<close>

definition attempt ::
  "TurnkeyRpcProxy \<Rightarrow> runtime \<Rightarrow> jsval \<Rightarrow> pstate \<Rightarrow> (exn + jsval) \<times> pstate" where
  "attempt this rt request s =
     handleRequest_try this rt request (get_field request ''method'')
       (get_field request ''params'') (get_field request ''id'')
       (logger_log this LInfo ''Incoming RPC request''
          [(''method'', MVal (get_field request ''method'')),
           (''id'', MVal (get_field request ''id''))] s)"

text \<open>
  A failure during the execution of a signing method, in terms of the collaborators: the
  method of the request is an intercepted one and reading its argument from \<^verbatim>\<open>params\<close>
  throws \<open>e\<close>, or (typed data) parsing the argument or destructuring what was parsed throws
  \<open>e\<close>, or the operation of the signing client throws \<open>e\<close>. The signing client is asked with
  the calls made before the request.
\<close>

definition signing_fails ::
  "TurnkeyRpcProxy \<Rightarrow> runtime \<Rightarrow> jsval \<Rightarrow> pstate \<Rightarrow> exn \<Rightarrow> bool" where
  "signing_fails this rt request s e =
     (let method = get_field request ''method'';
          params = get_field request ''params'';
          signer = turnkeySigner this;
          h = calls s
      in (method = JStr ''eth_accounts'' \<and> getAddress signer h = Inl e) \<or>
         (method = JStr ''eth_sendTransaction'' \<and>
            (case get_index rt params 0 of
               Inl t \<Rightarrow> t = e
             | Inr tx \<Rightarrow> sendTransaction signer h tx = Inl e)) \<or>
         (method = JStr ''eth_signTransaction'' \<and>
            (case get_index rt params 0 of
               Inl t \<Rightarrow> t = e
             | Inr tx \<Rightarrow> signTransaction signer h tx = Inl e)) \<or>
         ((method = JStr ''eth_sign'' \<or> method = JStr ''personal_sign'') \<and>
            (case get_index rt params 0 of
               Inl t \<Rightarrow> t = e
             | Inr msg \<Rightarrow> signMessage signer h msg = Inl e)) \<or>
         ((method = JStr ''eth_signTypedData'' \<or> method = JStr ''eth_signTypedData_v3''
             \<or> method = JStr ''eth_signTypedData_v4'') \<and>
            (case get_index rt params 1 of
               Inl t \<Rightarrow> t = e
             | Inr p1 \<Rightarrow>
                 (case JSON_parse rt (ToString rt p1) of
                    Inl t \<Rightarrow> t = e
                  | Inr typed \<Rightarrow>
                      if nullish typed then read_TypeError rt typed ''domain'' = e
                      else signTypedData signer h (get_field typed ''domain'')
                             (get_field typed ''types'') (get_field typed ''message'') = Inl e))))"

text \<open>
  A failure of the forwarding, in terms of the collaborators: the method is not an
  intercepted one and the POST of the request to upstream throws \<open>e\<close>, or upstream replies
  and reading the reply as JSON throws \<open>e\<close>.
\<close>

definition forwarding_fails ::
  "TurnkeyRpcProxy \<Rightarrow> runtime \<Rightarrow> jsval \<Rightarrow> pstate \<Rightarrow> exn \<Rightarrow> bool" where
  "forwarding_fails this rt request s e =
     (\<not> intercepted (get_field request ''method'') \<and>
      (case fetch rt (calls s) (upstreamRpcUrl (config this)) (upstream_init rt request) of
         Inl t \<Rightarrow> t = e
       | Inr response \<Rightarrow> JSON_parse rt (resp_text response) = Inl e))"

section \<open>Example requests, services and runtime\<close>

definition req_balance :: jsval where
  "req_balance =
     JObj [(''jsonrpc'', JStr ''2.0''), (''method'', JStr ''eth_getBalance''),
           (''params'', JArr [JStr ''0xabc'', JStr ''latest'']), (''id'', JNum 1)]"

definition req_send :: jsval where
  "req_send =
     JObj [(''jsonrpc'', JStr ''2.0''), (''method'', JStr ''eth_sendTransaction''),
           (''params'', JArr [JObj [(''to'', JStr ''0x01''), (''value'', JStr ''0x1'')]]),
           (''id'', JNum 2)]"

definition req_no_params :: jsval where
  "req_no_params =
     JObj [(''jsonrpc'', JStr ''2.0''), (''method'', JStr ''eth_sendTransaction''), (''id'', JNum 5)]"

definition req_accounts :: jsval where
  "req_accounts =
     JObj [(''jsonrpc'', JStr ''2.0''), (''method'', JStr ''eth_accounts''),
           (''params'', JArr []), (''id'', JNum 3)]"

definition req_accounts_again :: jsval where
  "req_accounts_again =
     JObj [(''jsonrpc'', JStr ''2.0''), (''method'', JStr ''eth_accounts''),
           (''params'', JArr []), (''id'', JNum 4)]"

definition balance_reply :: jsval where
  "balance_reply = JObj [(''jsonrpc'', JStr ''2.0''), (''result'', JStr ''0x10''), (''id'', JNum 1)]"

definition other_id_reply :: jsval where
  "other_id_reply = JObj [(''jsonrpc'', JStr ''2.0''), (''result'', JStr ''0x10''), (''id'', JNum 99)]"

definition bare_reply :: jsval where
  "bare_reply = JObj [(''jsonrpc'', JStr ''2.0''), (''id'', JNum 1)]"

definition send_failed_envelope :: jsval where
  "send_failed_envelope =
     JObj [(''jsonrpc'', JStr ''2.0''),
           (''error'', JObj [(''code'', JNum (- 32603)), (''message'', JStr ''Internal error''),
                             (''data'', JStr ''policy rejected'')]),
           (''id'', JNum 2)]"

text \<open>JSON texts and the values they denote.\<close>

definition req_balance_text :: string where
  \<open>req_balance_text =
     ''{"jsonrpc":"2.0","method":"eth_getBalance","params":["0xabc","latest"],"id":1}''\<close>

definition req_send_text :: string where
  \<open>req_send_text =
     ''{"jsonrpc":"2.0","method":"eth_sendTransaction","params":[{"to":"0x01","value":"0x1"}],"id":2}''\<close>

definition balance_reply_text :: string where
  \<open>balance_reply_text = ''{"jsonrpc":"2.0","result":"0x10","id":1}''\<close>

definition other_id_reply_text :: string where
  \<open>other_id_reply_text = ''{"jsonrpc":"2.0","result":"0x10","id":99}''\<close>

definition bare_reply_text :: string where
  \<open>bare_reply_text = ''{"jsonrpc":"2.0","id":1}''\<close>

definition send_failed_text :: string where
  \<open>send_failed_text =
     ''{"jsonrpc":"2.0","error":{"code":-32603,"message":"Internal error","data":"policy rejected"},"id":2}''\<close>

definition parse_error_text :: string where
  \<open>parse_error_text = ''{"jsonrpc":"2.0","error":{"code":-32700,"message":"Parse error"},"id":null}''\<close>

definition not_allowed_text :: string where
  \<open>not_allowed_text = ''{"error":"Method not allowed"}''\<close>

definition truncated_text :: string where
  \<open>truncated_text = ''{"jsonrpc":"2.0","method":"eth_acc''\<close>

definition json_texts :: "(string \<times> jsval) list" where
  \<open>json_texts =
     [(req_balance_text, req_balance),
      (req_send_text, req_send),
      (''{"jsonrpc":"2.0","method":"eth_accounts","params":[],"id":3}'', req_accounts),
      (balance_reply_text, balance_reply),
      (other_id_reply_text, other_id_reply),
      (bare_reply_text, bare_reply),
      (send_failed_text, send_failed_envelope),
      (parse_error_text, parse_error_envelope),
      (not_allowed_text, JObj [(''error'', JStr ''Method not allowed'')])]\<close>

text \<open>A runtime that agrees with \<^verbatim>\<open>JSON.parse\<close> and \<^verbatim>\<open>JSON.stringify\<close> on these texts and
  values, takes every other text for malformed, and reaches an upstream node that answers
  every call with the given body.\<close>

definition demo_runtime :: "string \<Rightarrow> runtime" where
  "demo_runtime reply =
     \<lparr>fetch = (\<lambda>h url init. Inr \<lparr>resp_status = 200, resp_text = reply\<rparr>),
      JSON_parse = (\<lambda>t. case map_of json_texts t of
                            None \<Rightarrow> Inl (JsError ''SyntaxError: JSON Parse error'')
                          | Some v \<Rightarrow> Inr v),
      JSON_stringify = (\<lambda>v. case find (\<lambda>p. snd p = v) json_texts of
                                None \<Rightarrow> [] | Some p \<Rightarrow> fst p),
      String_of = (\<lambda>v. ''[object Object]''),
      TypeError_message = (\<lambda>v k. (if v = JNull then ''null'' else ''undefined'')
                                   @ '' is not an object (reading '' @ k @ '')'')\<rparr>"

text \<open>A runtime whose upstream node cannot be reached.\<close>

definition offline_runtime :: runtime where
  "offline_runtime =
     (demo_runtime [])\<lparr>fetch := (\<lambda>h url init. Inl (JsError ''Unable to connect''))\<rparr>"

text \<open>A signing client bound to one address that signs what it is given, and one whose
  policy rejects every transaction.\<close>

definition demo_signer :: TurnkeySigner where
  "demo_signer =
     \<lparr>getAddress = (\<lambda>h. Inr ''0x5aAeb6053F3E94C9b9A09f33669435E7Ef1BeAed''),
      sendTransaction = (\<lambda>h tx. Inr \<lparr>hash = ''0xa1b2''\<rparr>),
      signTransaction = (\<lambda>h tx. Inr ''0x02f8''),
      signMessage = (\<lambda>h m. Inr ''0x1c2d''),
      signTypedData = (\<lambda>h d t m. Inr ''0x3e4f'')\<rparr>"

definition rejecting_signer :: TurnkeySigner where
  "rejecting_signer =
     demo_signer\<lparr>sendTransaction := (\<lambda>h tx. Inl (JsError ''policy rejected''))\<rparr>"

definition demo_config :: ProxyConfig where
  "demo_config =
     \<lparr>port = 8545, upstreamRpcUrl = ''https://eth.llamarpc.com'',
      turnkeyConfig = \<lparr>baseUrl = ''https://api.turnkey.com'', organizationId = ''org'',
                       privateKeyId = ''key'', apiPublicKey = ''pub'', apiPrivateKey = ''priv''\<rparr>,
      enableLogging = Some False, enableCors = Some False\<rparr>"

definition demo_proxy :: TurnkeyRpcProxy where
  "demo_proxy = \<lparr>config = demo_config, turnkeySigner = demo_signer\<rparr>"

definition rejecting_proxy :: TurnkeyRpcProxy where
  "rejecting_proxy = \<lparr>config = demo_config, turnkeySigner = rejecting_signer\<rparr>"

definition cors_proxy :: TurnkeyRpcProxy where
  "cors_proxy = \<lparr>config = demo_config\<lparr>enableCors := Some True\<rparr>, turnkeySigner = demo_signer\<rparr>"

definition idle :: pstate where
  "idle = \<lparr>calls = [], logged = []\<rparr>"

section \<open>Auxiliary facts\<close>

lemma calls_logger_log: "calls (logger_log this lvl msg meta s) = calls s"
  by (simp add: logger_log_def)

lemma intercepted_iff:
  "intercepted m \<longleftrightarrow>
     m = JStr ''eth_accounts'' \<or> m = JStr ''eth_sendTransaction'' \<or>
     m = JStr ''eth_signTransaction'' \<or> m = JStr ''eth_sign'' \<or> m = JStr ''personal_sign'' \<or>
     m = JStr ''eth_signTypedData'' \<or> m = JStr ''eth_signTypedData_v3'' \<or>
     m = JStr ''eth_signTypedData_v4''"
  unfolding intercepted_def by auto

lemma try_default:
  "\<not> intercepted method \<Longrightarrow>
   handleRequest_try this rt request method params id' s = forwardToUpstream this rt request s"
  by (simp add: handleRequest_try_def intercepted_def)

lemma handleRequest_cases:
  assumes "\<not> nullish request"
  shows "handleRequest this rt request s =
     (case attempt this rt request s of
        (Inr response, s2) \<Rightarrow> (Inr response, s2)
      | (Inl error, s2) \<Rightarrow>
          (Inr (internal_error_response rt error (get_field request ''id'')),
           logger_log this LError ''Error handling request''
             [(''method'', MVal (get_field request ''method'')),
              (''id'', MVal (get_field request ''id'')), (''error'', MErr error)] s2))"
  using assms by (simp add: handleRequest_def attempt_def Let_def)

lemma handleRequest_returns:
  assumes "\<not> nullish request"
  obtains response s' where "handleRequest this rt request s = (Inr response, s')"
proof (cases "attempt this rt request s")
  case (Pair r s2)
  then show ?thesis
    using assms that by (cases r) (simp_all add: handleRequest_cases)
qed

lemma handleRequest_failed:
  assumes "\<not> nullish request" and "attempt this rt request s = (Inl e, s2)"
  shows "fst (handleRequest this rt request s) =
           Inr (internal_error_response rt e (get_field request ''id''))"
  using assms by (simp add: handleRequest_cases)

lemma handleRequest_answered:
  assumes "\<not> nullish request" and "attempt this rt request s = (Inr r, s2)"
  shows "handleRequest this rt request s = (Inr r, s2)"
  using assms by (simp add: handleRequest_cases)

lemma error_envelope_fields:
  "get_field (internal_error_response rt e i) ''error'' \<noteq> JUndefined"
  "get_field (internal_error_response rt e i) ''result'' = JUndefined"
  "get_field (internal_error_response rt e i) ''id'' = i"
  by (simp_all add: internal_error_response_def)

lemma success_envelope_fields:
  "get_field (success_response r i) ''error'' = JUndefined"
  "get_field (success_response r i) ''result'' = r"
  "get_field (success_response r i) ''id'' = i"
  by (simp_all add: success_response_def)


lemma forward_answer:
  assumes "\<not> nullish request"
    and "fetch rt (calls s) (upstreamRpcUrl (config this)) (upstream_init rt request) = Inr upstream"
    and "JSON_parse rt (resp_text upstream) = Inr answer"
  shows "fst (forwardToUpstream this rt request s) = Inr answer"
  using assms by (simp add: forwardToUpstream_def Let_def calls_logger_log)

lemma attempt_forwarded:
  assumes "\<not> nullish request"
    and "\<not> intercepted (get_field request ''method'')"
    and "fetch rt (calls s) (upstreamRpcUrl (config this)) (upstream_init rt request) = Inr upstream"
    and "JSON_parse rt (resp_text upstream) = Inr answer"
  shows "fst (attempt this rt request s) = Inr answer"
  using assms by (simp add: attempt_def try_default forward_answer calls_logger_log)

lemma handleRequest_forwarded:
  assumes "\<not> nullish request" and "\<not> intercepted (get_field request ''method'')"
    and "fetch rt (calls s) (upstreamRpcUrl (config this)) (upstream_init rt request) = Inr upstream"
    and "JSON_parse rt (resp_text upstream) = Inr answer"
  shows "fst (handleRequest this rt request s) = Inr answer"
proof -
  obtain s2 where "attempt this rt request s = (Inr answer, s2)"
    using attempt_forwarded [OF assms] by (cases "attempt this rt request s") simp
  then show ?thesis
    using assms(1) by (simp add: handleRequest_answered)
qed


text \<open>What the two notions of failure say of a plain failure of a collaborator.\<close>

lemma signing_fails_signer:
  "get_field request ''method'' = JStr ''eth_accounts'' \<Longrightarrow>
     getAddress (turnkeySigner this) (calls s) = Inl e \<Longrightarrow> signing_fails this rt request s e"
  "get_field request ''method'' = JStr ''eth_sendTransaction'' \<Longrightarrow>
     get_index rt (get_field request ''params'') 0 = Inr tx \<Longrightarrow>
     sendTransaction (turnkeySigner this) (calls s) tx = Inl e \<Longrightarrow> signing_fails this rt request s e"
  "get_field request ''method'' = JStr ''eth_signTransaction'' \<Longrightarrow>
     get_index rt (get_field request ''params'') 0 = Inr tx \<Longrightarrow>
     signTransaction (turnkeySigner this) (calls s) tx = Inl e \<Longrightarrow> signing_fails this rt request s e"
  "get_field request ''method'' = JStr ''personal_sign'' \<Longrightarrow>
     get_index rt (get_field request ''params'') 0 = Inr msg \<Longrightarrow>
     signMessage (turnkeySigner this) (calls s) msg = Inl e \<Longrightarrow> signing_fails this rt request s e"
  "get_field request ''method'' = JStr ''eth_sendTransaction'' \<Longrightarrow>
     nullish (get_field request ''params'') \<Longrightarrow>
     signing_fails this rt request s (read_TypeError rt (get_field request ''params'') ''0'')"
  by (auto simp: signing_fails_def Let_def nullish_def digit_def)

lemma forwarding_fails_fetch:
  "\<not> intercepted (get_field request ''method'') \<Longrightarrow>
     fetch rt (calls s) (upstreamRpcUrl (config this)) (upstream_init rt request) = Inl e \<Longrightarrow>
     forwarding_fails this rt request s e"
  by (simp add: forwarding_fails_def)

lemma signing_fails_attempt:
  assumes "signing_fails this rt request s e"
  shows "fst (attempt this rt request s) = Inl e"
  using assms unfolding signing_fails_def Let_def attempt_def
  apply (elim disjE conjE)
  apply (auto simp: handleRequest_try_def calls_logger_log Let_def split: sum.splits if_splits)
  done

lemma forwarding_fails_attempt:
  assumes "\<not> nullish request" and "forwarding_fails this rt request s e"
  shows "fst (attempt this rt request s) = Inl e"
  using assms
  by (auto simp: forwarding_fails_def attempt_def try_default forwardToUpstream_def Let_def
      calls_logger_log split: sum.splits)

text \<open>Conversely, the \<^verbatim>\<open>try\<close> block throws for no other reason.\<close>

lemma attempt_failure_cases:
  assumes "\<not> nullish request" and "attempt this rt request s = (Inl e, s2)"
  shows "signing_fails this rt request s e \<or> forwarding_fails this rt request s e"
proof (cases "intercepted (get_field request ''method'')")
  case False
  then show ?thesis
    using assms
    by (auto simp: forwarding_fails_def attempt_def try_default forwardToUpstream_def Let_def
        calls_logger_log split: sum.splits)
next
  case True
  then have
    "get_field request ''method'' = JStr ''eth_accounts'' \<or>
     get_field request ''method'' = JStr ''eth_sendTransaction'' \<or>
     get_field request ''method'' = JStr ''eth_signTransaction'' \<or>
     get_field request ''method'' = JStr ''eth_sign'' \<or>
     get_field request ''method'' = JStr ''personal_sign'' \<or>
     get_field request ''method'' = JStr ''eth_signTypedData'' \<or>
     get_field request ''method'' = JStr ''eth_signTypedData_v3'' \<or>
     get_field request ''method'' = JStr ''eth_signTypedData_v4''"
    by (simp only: intercepted_iff)
  then have "signing_fails this rt request s e"
    using assms(2) unfolding attempt_def signing_fails_def
    apply (elim disjE)
    apply (auto simp: handleRequest_try_def calls_logger_log Let_def split: sum.splits if_splits)
    done
  then show ?thesis ..
qed

lemma failure_caught:
  assumes "\<not> nullish request"
    and "signing_fails this rt request s e \<or> forwarding_fails this rt request s e"
  shows "fst (handleRequest this rt request s) =
           Inr (internal_error_response rt e (get_field request ''id''))"
proof -
  have "fst (attempt this rt request s) = Inl e"
    using assms signing_fails_attempt forwarding_fails_attempt by blast
  then obtain s2 where "attempt this rt request s = (Inl e, s2)"
    by (cases "attempt this rt request s") simp
  then show ?thesis
    using assms(1) by (rule_tac handleRequest_failed)
qed

text \<open>Facts about the example runtime.\<close>

lemma demo_parse_texts:
  "JSON_parse (demo_runtime r) req_balance_text = Inr req_balance"
  "JSON_parse (demo_runtime r) req_send_text = Inr req_send"
  "JSON_parse (demo_runtime r) balance_reply_text = Inr balance_reply"
  "JSON_parse (demo_runtime r) other_id_reply_text = Inr other_id_reply"
  "JSON_parse (demo_runtime r) bare_reply_text = Inr bare_reply"
  "JSON_parse (demo_runtime r) truncated_text = Inl (JsError ''SyntaxError: JSON Parse error'')"
  by (simp_all add: demo_runtime_def json_texts_def req_balance_text_def req_send_text_def
      balance_reply_text_def other_id_reply_text_def bare_reply_text_def truncated_text_def
      send_failed_text_def parse_error_text_def not_allowed_text_def)

lemma demo_fetch:
  "fetch (demo_runtime r) h url init = Inr \<lparr>resp_status = 200, resp_text = r\<rparr>"
  by (simp add: demo_runtime_def)


lemma demo_not_nullish:
  "\<not> nullish req_balance" "\<not> nullish req_send" "\<not> nullish req_accounts"
  "\<not> nullish req_accounts_again" "\<not> nullish req_no_params"
  by (simp_all add: nullish_def req_balance_def req_send_def req_accounts_def
      req_accounts_again_def req_no_params_def)

lemma demo_methods:
  "get_field req_balance ''method'' = JStr ''eth_getBalance''"
  "get_field req_send ''method'' = JStr ''eth_sendTransaction''"
  "get_field req_accounts ''method'' = JStr ''eth_accounts''"
  "get_field req_accounts_again ''method'' = JStr ''eth_accounts''"
  by (simp_all add: req_balance_def req_send_def req_accounts_def req_accounts_again_def)

lemma demo_ids:
  "get_field req_balance ''id'' = JNum 1"
  "get_field req_send ''id'' = JNum 2"
  "get_field req_accounts ''id'' = JNum 3"
  "get_field req_accounts_again ''id'' = JNum 4"
  by (simp_all add: req_balance_def req_send_def req_accounts_def req_accounts_again_def)

lemma demo_failures:
  "signing_fails rejecting_proxy (demo_runtime r) req_send idle (JsError ''policy rejected'')"
  "signing_fails demo_proxy (demo_runtime r) req_no_params idle
     (JsError ''undefined is not an object (reading 0)'')"
  "forwarding_fails demo_proxy offline_runtime req_balance idle (JsError ''Unable to connect'')"
  by (simp_all add: signing_fails_def forwarding_fails_def intercepted_iff req_send_def
      req_no_params_def req_balance_def rejecting_proxy_def rejecting_signer_def demo_proxy_def
      demo_signer_def offline_runtime_def demo_runtime_def read_TypeError_def digit_def)

lemma balance_not_intercepted: "\<not> intercepted (get_field req_balance ''method'')"
  by (simp add: demo_methods intercepted_iff)

text \<open>Facts about the listener.\<close>

lemma response_fields:
  "statusCode (writeHead st hs res) = st"
  "statusCode (end_response d res) = statusCode res"
  "body (end_response d res) = d"
  "headers (end_response d res) = headers res"
  "headers (writeHead st [] res) = headers res"
  "headers (writeHead st json_content res)
     = set_header_list ''Content-Type'' ''application/json'' (headers res)"
  by (simp_all add: writeHead_def end_response_def json_content_def setHeader_def)

lemma start_on_end_answered:
  assumes "JSON_parse rt payload = Inr request"
    and "handleRequest this rt request s = (Inr response, s1)"
  shows "start_on_end this rt payload res s =
           (end_response (JSON_stringify rt response) (writeHead 200 json_content res), s1)"
  using assms by (simp add: start_on_end_def)

lemma start_on_end_malformed:
  assumes "JSON_parse rt payload = Inl e"
  shows "fst (start_on_end this rt payload res s) =
           end_response (JSON_stringify rt parse_error_envelope) (writeHead 400 json_content res)"
  using assms by (simp add: start_on_end_def start_catch_def)

lemma start_on_end_headers:
  "headers (fst (start_on_end this rt payload res s))
     = set_header_list ''Content-Type'' ''application/json'' (headers res)"
proof (cases "JSON_parse rt payload")
  case (Inl e)
  then show ?thesis
    by (simp add: start_on_end_malformed response_fields)
next
  case (Inr request)
  obtain r s1 where h: "handleRequest this rt request s = (r, s1)"
    by (cases "handleRequest this rt request s")
  show ?thesis
    using Inr h by (cases r) (simp_all add: start_on_end_def start_catch_def response_fields)
qed

lemma start_listener_post:
  assumes "req_method req = ''POST''"
  shows "\<exists>res. start_listener this rt req s = start_on_end this rt (concat (req_chunks req)) res s"
  using assms by (auto simp: start_listener_def Let_def)

lemma accounts_once:
  assumes "get_field request ''method'' = JStr ''eth_accounts''"
    and "handleRequest this rt request s = (Inr response, s1)"
    and "has_field response ''result''"
  shows "\<exists>b. getAddress (turnkeySigner this) (calls s) = Inr b \<and>
             response = success_response (JArr [JStr b]) (get_field request ''id'') \<and>
             calls s1 = calls s @ [CallGetAddress]"
proof -
  have n: "\<not> nullish request"
    using assms(1) by (auto simp: nullish_def)
  show ?thesis
  proof (cases "getAddress (turnkeySigner this) (calls s)")
    case (Inl e)
    then have "response = internal_error_response rt e (get_field request ''id'')"
      using assms(1,2) n
      by (simp add: handleRequest_cases attempt_def handleRequest_try_def calls_logger_log)
    with assms(3) show ?thesis
      by (simp add: has_field_def error_envelope_fields)
  next
    case (Inr b)
    then show ?thesis
      using assms(1,2) n
      by (auto simp: handleRequest_cases attempt_def handleRequest_try_def calls_logger_log
          record_call_def)
  qed
qed

lemma demo_accounts:
  "handleRequest demo_proxy rt req_accounts idle =
     (Inr (JObj [(''jsonrpc'', JStr ''2.0''),
                 (''result'', JArr [JStr ''0x5aAeb6053F3E94C9b9A09f33669435E7Ef1BeAed'']),
                 (''id'', JNum 3)]),
      \<lparr>calls = [CallGetAddress], logged = []\<rparr>)"
  "handleRequest demo_proxy rt req_accounts_again \<lparr>calls = [CallGetAddress], logged = []\<rparr> =
     (Inr (JObj [(''jsonrpc'', JStr ''2.0''),
                 (''result'', JArr [JStr ''0x5aAeb6053F3E94C9b9A09f33669435E7Ef1BeAed'']),
                 (''id'', JNum 4)]),
      \<lparr>calls = [CallGetAddress, CallGetAddress], logged = []\<rparr>)"
  by (simp_all add: handleRequest_def handleRequest_try_def nullish_def req_accounts_def
      req_accounts_again_def demo_proxy_def demo_signer_def success_response_def record_call_def
      idle_def logger_log_def logger_level_def demo_config_def truthy_def)

section \<open>The dispatcher never throws\<close>

text \<open>
  The one value \<^verbatim>\<open>JSON.parse\<close> can return on which \<open>handleRequest\<close> throws is \<^verbatim>\<open>null\<close>
  (the body \<^verbatim>\<open>null\<close>): the destructuring fails before the \<^verbatim>\<open>try\<close> is entered. The
  listener catches it and answers as it does for a body that is not JSON.
\<close>

lemma handleRequest_null:
  "handleRequest this rt JNull s = (Inl (read_TypeError rt JNull ''method''), s)"
  by (simp add: handleRequest_def nullish_def)

lemma start_on_end_null:
  assumes "JSON_parse rt payload = Inr JNull"
  shows "fst (start_on_end this rt payload res s) =
           end_response (JSON_stringify rt parse_error_envelope) (writeHead 400 json_content res)"
  using assms by (simp add: start_on_end_def handleRequest_null start_catch_def)


text \<open>
  C1. For every parsed RPC request (every value other than \<^verbatim>\<open>null\<close> and \<^verbatim>\<open>undefined\<close>,
  whatever its fields), \<open>handleRequest\<close> returns a response and does not throw; whenever
  the execution of the signing method fails (the signing client throws, or the argument
  cannot be read or parsed) or the forwarding fails (the call to upstream throws, or its
  reply is not JSON), the response returned has its \<open>error\<close> field set, and no \<open>result\<close>.
\<close>

theorem handleRequest_never_raises:
  assumes "\<not> nullish request"
  shows "\<exists>response s'. handleRequest this rt request s = (Inr response, s') \<and>
           (\<forall>e. signing_fails this rt request s e \<or> forwarding_fails this rt request s e
              \<longrightarrow> has_field response ''error'' \<and> \<not> has_field response ''result'')"
proof -
  obtain response s' where r: "handleRequest this rt request s = (Inr response, s')"
    using assms by (rule handleRequest_returns)
  have "has_field response ''error'' \<and> \<not> has_field response ''result''"
    if "signing_fails this rt request s e \<or> forwarding_fails this rt request s e" for e
    using failure_caught [OF assms that] r
    by (simp add: has_field_def error_envelope_fields)
  with r show ?thesis by blast
qed

theorem handleRequest_never_raises_witness:
  "(\<not> nullish req_send \<and>
    signing_fails rejecting_proxy (demo_runtime []) req_send idle (JsError ''policy rejected'') \<and>
    (\<exists>response s'.
       handleRequest rejecting_proxy (demo_runtime []) req_send idle = (Inr response, s') \<and>
       has_field response ''error'' \<and> \<not> has_field response ''result'')) \<and>
   (\<not> nullish req_balance \<and>
    forwarding_fails demo_proxy offline_runtime req_balance idle (JsError ''Unable to connect'') \<and>
    (\<exists>response s'.
       handleRequest demo_proxy offline_runtime req_balance idle = (Inr response, s') \<and>
       has_field response ''error'' \<and> \<not> has_field response ''result''))"
  using handleRequest_never_raises [of req_send rejecting_proxy "demo_runtime []" idle]
    handleRequest_never_raises [of req_balance demo_proxy offline_runtime idle]
    demo_failures(1) [of "[]"] demo_failures(3)
  by (auto simp: demo_not_nullish)

section \<open>Pass-through of the other methods\<close>

text \<open>
  C2. For every request whose method is not one of the eight intercepted signing methods,
  the response of \<open>handleRequest\<close> is exactly what upstream answered to that request: the
  parsed body of the reply to the POST that carries the request.
\<close>

theorem unrecognized_method_passes_through:
  assumes "\<not> nullish request"
    and "\<not> intercepted (get_field request ''method'')"
    and "fetch rt (calls s) (upstreamRpcUrl (config this)) (upstream_init rt request) = Inr upstream"
    and "JSON_parse rt (resp_text upstream) = Inr answer"
  shows "fst (handleRequest this rt request s) = Inr answer"
  using assms by (rule handleRequest_forwarded)

theorem unrecognized_method_passes_through_witness:
  "\<not> nullish req_balance \<and> \<not> intercepted (get_field req_balance ''method'') \<and>
   fetch (demo_runtime balance_reply_text) (calls idle) (upstreamRpcUrl (config demo_proxy))
     (upstream_init (demo_runtime balance_reply_text) req_balance)
     = Inr \<lparr>resp_status = 200, resp_text = balance_reply_text\<rparr> \<and>
   JSON_parse (demo_runtime balance_reply_text)
     (resp_text \<lparr>resp_status = 200, resp_text = balance_reply_text\<rparr>) = Inr balance_reply \<and>
   fst (handleRequest demo_proxy (demo_runtime balance_reply_text) req_balance idle)
     = Inr balance_reply"
  using unrecognized_method_passes_through
    [of req_balance "demo_runtime balance_reply_text" idle demo_proxy
        "\<lparr>resp_status = 200, resp_text = balance_reply_text\<rparr>" balance_reply]
  by (simp add: demo_not_nullish balance_not_intercepted demo_fetch demo_parse_texts)

section \<open>The id of the response\<close>




section \<open>Exactly one of result and error\<close>




section \<open>The internal-error envelope\<close>

text \<open>
  C5. Whenever the execution of the signing method fails (the signing client throws, or
  the argument cannot be read or parsed) or the forwarding fails (the call to upstream
  throws, or its reply is not JSON), \<open>handleRequest\<close> returns the envelope with error code
  -32603, message "Internal error", the message of the error (or the string conversion of a
  thrown value that is not an \<^verbatim>\<open>Error\<close>) as \<open>data\<close>, and the id of the request; the listener
  answers a POST carrying that request with status 200 and this envelope as body.
\<close>

theorem failure_gives_internal_error:
  assumes "\<not> nullish request"
    and "signing_fails this rt request s e \<or> forwarding_fails this rt request s e"
  shows "fst (handleRequest this rt request s) =
           Inr (JObj [(''jsonrpc'', JStr ''2.0''),
                      (''error'', JObj [(''code'', JNum (- 32603)),
                                        (''message'', JStr ''Internal error''),
                                        (''data'', JStr (case e of JsError m \<Rightarrow> m
                                                         | Thrown v \<Rightarrow> ToString rt v))]),
                      (''id'', get_field request ''id'')]) \<and>
         (\<forall>req. req_method req = ''POST'' \<and> JSON_parse rt (concat (req_chunks req)) = Inr request
            \<longrightarrow> statusCode (fst (start_listener this rt req s)) = 200 \<and>
                body (fst (start_listener this rt req s)) =
                  JSON_stringify rt
                    (JObj [(''jsonrpc'', JStr ''2.0''),
                           (''error'', JObj [(''code'', JNum (- 32603)),
                                             (''message'', JStr ''Internal error''),
                                             (''data'', JStr (case e of JsError m \<Rightarrow> m
                                                              | Thrown v \<Rightarrow> ToString rt v))]),
                           (''id'', get_field request ''id'')]))"
proof -
  let ?envelope = "internal_error_response rt e (get_field request ''id'')"
  have shape: "?envelope =
      JObj [(''jsonrpc'', JStr ''2.0''),
            (''error'', JObj [(''code'', JNum (- 32603)),
                              (''message'', JStr ''Internal error''),
                              (''data'', JStr (case e of JsError m \<Rightarrow> m
                                               | Thrown v \<Rightarrow> ToString rt v))]),
            (''id'', get_field request ''id'')]"
    by (simp add: internal_error_response_def error_data_def)
  have h: "fst (handleRequest this rt request s) = Inr ?envelope"
    using assms by (rule failure_caught)
  then obtain s' where h': "handleRequest this rt request s = (Inr ?envelope, s')"
    by (cases "handleRequest this rt request s") simp
  have "statusCode (fst (start_listener this rt req s)) = 200 \<and>
        body (fst (start_listener this rt req s)) = JSON_stringify rt ?envelope"
    if post: "req_method req = ''POST''"
      and parsed: "JSON_parse rt (concat (req_chunks req)) = Inr request"
    for req
  proof -
    obtain res where
      "start_listener this rt req s = start_on_end this rt (concat (req_chunks req)) res s"
      using start_listener_post [OF post] by blast
    then show ?thesis
      by (simp add: start_on_end_answered [OF parsed h'] response_fields)
  qed
  with h show ?thesis
    unfolding shape by blast
qed

theorem failure_gives_internal_error_witness:
  "(\<not> nullish req_send \<and>
    signing_fails rejecting_proxy (demo_runtime []) req_send idle (JsError ''policy rejected'') \<and>
    req_method \<lparr>req_method = ''POST'', req_chunks = [req_send_text]\<rparr> = ''POST'' \<and>
    JSON_parse (demo_runtime [])
      (concat (req_chunks \<lparr>req_method = ''POST'', req_chunks = [req_send_text]\<rparr>)) = Inr req_send \<and>
    fst (handleRequest rejecting_proxy (demo_runtime []) req_send idle) = Inr send_failed_envelope \<and>
    statusCode (fst (start_listener rejecting_proxy (demo_runtime [])
       \<lparr>req_method = ''POST'', req_chunks = [req_send_text]\<rparr> idle)) = 200 \<and>
    body (fst (start_listener rejecting_proxy (demo_runtime [])
       \<lparr>req_method = ''POST'', req_chunks = [req_send_text]\<rparr> idle)) = send_failed_text) \<and>
   (\<not> nullish req_no_params \<and>
    signing_fails demo_proxy (demo_runtime []) req_no_params idle
      (JsError ''undefined is not an object (reading 0)'') \<and>
    fst (handleRequest demo_proxy (demo_runtime []) req_no_params idle) =
      Inr (JObj [(''jsonrpc'', JStr ''2.0''),
                 (''error'', JObj [(''code'', JNum (- 32603)),
                                   (''message'', JStr ''Internal error''),
                                   (''data'', JStr ''undefined is not an object (reading 0)'')]),
                 (''id'', JNum 5)])) \<and>
   (\<not> nullish req_balance \<and>
    forwarding_fails demo_proxy offline_runtime req_balance idle (JsError ''Unable to connect'') \<and>
    fst (handleRequest demo_proxy offline_runtime req_balance idle) =
      Inr (JObj [(''jsonrpc'', JStr ''2.0''),
                 (''error'', JObj [(''code'', JNum (- 32603)),
                                   (''message'', JStr ''Internal error''),
                                   (''data'', JStr ''Unable to connect'')]),
                 (''id'', JNum 1)]))"
proof -
  have 1: "JSON_stringify (demo_runtime []) send_failed_envelope = send_failed_text"
    by (simp add: demo_runtime_def json_texts_def send_failed_envelope_def req_balance_def
        req_send_def req_accounts_def balance_reply_def other_id_reply_def bare_reply_def)
  have 2: "JObj [(''jsonrpc'', JStr ''2.0''),
                 (''error'', JObj [(''code'', JNum (- 32603)),
                                   (''message'', JStr ''Internal error''),
                                   (''data'', JStr ''policy rejected'')]),
                 (''id'', JNum 2)] = send_failed_envelope"
    by (simp add: send_failed_envelope_def)
  have 3: "get_field req_no_params ''id'' = JNum 5"
    by (simp add: req_no_params_def)
  show ?thesis
    using failure_gives_internal_error
        [of req_send rejecting_proxy "demo_runtime []" idle "JsError ''policy rejected''"]
      failure_gives_internal_error
        [of req_no_params demo_proxy "demo_runtime []" idle
            "JsError ''undefined is not an object (reading 0)''"]
      failure_gives_internal_error
        [of req_balance demo_proxy offline_runtime idle "JsError ''Unable to connect''"]
      demo_failures(1) [of "[]"] demo_failures(2) [of "[]"] demo_failures(3)
    by (simp add: demo_not_nullish demo_parse_texts demo_ids 1 2 3)
qed

section \<open>Forwarding to upstream\<close>

text \<open>
  C6. For every request it is given, \<open>forwardToUpstream\<close> makes exactly one outbound call:
  a POST to the configured upstream URL with content type \<^verbatim>\<open>application/json\<close> whose body
  is the serialisation of that request, with nothing added, removed or changed. It returns
  the parsed body of the reply as it is; a failure of the call or of the parsing is thrown
  to the caller.
\<close>

theorem forwardToUpstream_single_call:
  assumes "\<not> nullish request"
  shows "calls (snd (forwardToUpstream this rt request s)) =
           calls s @ [CallFetch (upstreamRpcUrl (config this))
                        \<lparr>init_method = ''POST'',
                         init_headers = [(''Content-Type'', ''application/json'')],
                         init_body = JSON_stringify rt request\<rparr>] \<and>
         fst (forwardToUpstream this rt request s) =
           (case fetch rt (calls s) (upstreamRpcUrl (config this))
                   \<lparr>init_method = ''POST'',
                    init_headers = [(''Content-Type'', ''application/json'')],
                    init_body = JSON_stringify rt request\<rparr> of
              Inl error \<Rightarrow> Inl error
            | Inr response \<Rightarrow> JSON_parse rt (resp_text response))"
  using assms
  by (simp add: forwardToUpstream_def upstream_init_def Let_def calls_logger_log record_call_def
      split: sum.splits)

theorem forwardToUpstream_single_call_witness:
  "\<not> nullish req_balance \<and>
   calls (snd (forwardToUpstream demo_proxy (demo_runtime balance_reply_text) req_balance idle)) =
     [CallFetch ''https://eth.llamarpc.com''
        \<lparr>init_method = ''POST'',
         init_headers = [(''Content-Type'', ''application/json'')],
         init_body = req_balance_text\<rparr>] \<and>
   fst (forwardToUpstream demo_proxy (demo_runtime balance_reply_text) req_balance idle)
     = Inr balance_reply"
proof -
  have 1: "JSON_stringify (demo_runtime balance_reply_text) req_balance = req_balance_text"
    by (simp add: demo_runtime_def json_texts_def)
  have 2: "upstreamRpcUrl (config demo_proxy) = ''https://eth.llamarpc.com''"
    by (simp add: demo_proxy_def demo_config_def)
  have 3: "calls idle = []"
    by (simp add: idle_def)
  show ?thesis
    using forwardToUpstream_single_call
      [of req_balance demo_proxy "demo_runtime balance_reply_text" idle]
    by (simp add: demo_not_nullish 1 2 3 demo_fetch demo_parse_texts)
qed

section \<open>eth\_accounts\<close>

text \<open>
  C7. Let the signing client be bound to the address \<open>a\<close>: whenever it tells its address,
  the address is \<open>a\<close>. Then the result of every successful \<^verbatim>\<open>eth_accounts\<close> response is the
  one-element array holding \<open>a\<close>, also when the request is repeated; and all that handling
  the request does to the remote services is to ask the signing client for its address:
  nothing is signed, sent or forwarded.
\<close>

theorem eth_accounts_returns_signer_address:
  assumes "\<forall>h b. getAddress (turnkeySigner this) h = Inr b \<longrightarrow> b = a"
    and "get_field request ''method'' = JStr ''eth_accounts''"
    and "get_field again ''method'' = JStr ''eth_accounts''"
    and "handleRequest this rt request s = (Inr response, s1)"
    and "handleRequest this rt again s1 = (Inr response', s2)"
    and "has_field response ''result''"
    and "has_field response' ''result''"
  shows "get_field response ''result'' = JArr [JStr a] \<and>
         get_field response' ''result'' = JArr [JStr a] \<and>
         calls s1 = calls s @ [CallGetAddress] \<and>
         calls s2 = calls s @ [CallGetAddress, CallGetAddress]"
proof -
  obtain b where b: "getAddress (turnkeySigner this) (calls s) = Inr b"
      "response = success_response (JArr [JStr b]) (get_field request ''id'')"
      "calls s1 = calls s @ [CallGetAddress]"
    using accounts_once [OF assms(2,4,6)] by blast
  obtain b' where b': "getAddress (turnkeySigner this) (calls s1) = Inr b'"
      "response' = success_response (JArr [JStr b']) (get_field again ''id'')"
      "calls s2 = calls s1 @ [CallGetAddress]"
    using accounts_once [OF assms(3,5,7)] by blast
  have "b = a" and "b' = a"
    using assms(1) b(1) b'(1) by blast+
  with b b' show ?thesis
    by (simp add: success_envelope_fields)
qed

theorem eth_accounts_returns_signer_address_witness:
  "getAddress (turnkeySigner demo_proxy)
     = (\<lambda>h. Inr ''0x5aAeb6053F3E94C9b9A09f33669435E7Ef1BeAed'') \<and>
   get_field req_accounts ''method'' = JStr ''eth_accounts'' \<and>
   get_field req_accounts_again ''method'' = JStr ''eth_accounts'' \<and>
   handleRequest demo_proxy offline_runtime req_accounts idle =
     (Inr (JObj [(''jsonrpc'', JStr ''2.0''),
                 (''result'', JArr [JStr ''0x5aAeb6053F3E94C9b9A09f33669435E7Ef1BeAed'']),
                 (''id'', JNum 3)]),
      \<lparr>calls = [CallGetAddress], logged = []\<rparr>) \<and>
   handleRequest demo_proxy offline_runtime req_accounts_again
       \<lparr>calls = [CallGetAddress], logged = []\<rparr> =
     (Inr (JObj [(''jsonrpc'', JStr ''2.0''),
                 (''result'', JArr [JStr ''0x5aAeb6053F3E94C9b9A09f33669435E7Ef1BeAed'']),
                 (''id'', JNum 4)]),
      \<lparr>calls = [CallGetAddress, CallGetAddress], logged = []\<rparr>) \<and>
   calls \<lparr>calls = [CallGetAddress, CallGetAddress], logged = []\<rparr>
     = calls idle @ [CallGetAddress, CallGetAddress]"
proof -
  have bound: "\<forall>h b. getAddress (turnkeySigner demo_proxy) h = Inr b
      \<longrightarrow> b = ''0x5aAeb6053F3E94C9b9A09f33669435E7Ef1BeAed''"
    by (simp add: demo_proxy_def demo_signer_def)
  have signer: "getAddress (turnkeySigner demo_proxy)
     = (\<lambda>h. Inr ''0x5aAeb6053F3E94C9b9A09f33669435E7Ef1BeAed'')"
    by (simp add: demo_proxy_def demo_signer_def)
  have idle: "calls idle = []"
    by (simp add: idle_def)
  show ?thesis
    using eth_accounts_returns_signer_address
      [OF bound demo_methods(3) demo_methods(4)
          demo_accounts(1) [of offline_runtime] demo_accounts(2) [of offline_runtime]]
    using signer idle by (simp add: demo_methods demo_accounts has_field_def)
qed

section \<open>The HTTP listener\<close>

text \<open>
  C8. For every POST whose body is not valid JSON the listener answers with status 400
  and the envelope with code -32700, message "Parse error" and id \<^verbatim>\<open>null\<close>.
\<close>

theorem malformed_body_gives_parse_error:
  assumes "req_method req = ''POST''"
    and "JSON_parse rt (concat (req_chunks req)) = Inl e"
  shows "statusCode (fst (start_listener this rt req s)) = 400 \<and>
         body (fst (start_listener this rt req s)) =
           JSON_stringify rt
             (JObj [(''jsonrpc'', JStr ''2.0''),
                    (''error'', JObj [(''code'', JNum (- 32700)),
                                      (''message'', JStr ''Parse error'')]),
                    (''id'', JNull)])"
proof -
  obtain res where
    "start_listener this rt req s = start_on_end this rt (concat (req_chunks req)) res s"
    using start_listener_post [OF assms(1)] by blast
  then show ?thesis
    by (simp add: start_on_end_malformed [OF assms(2)] response_fields
        parse_error_envelope_def)
qed

theorem malformed_body_gives_parse_error_witness:
  "req_method \<lparr>req_method = ''POST'', req_chunks = [truncated_text]\<rparr> = ''POST'' \<and>
   JSON_parse (demo_runtime [])
     (concat (req_chunks \<lparr>req_method = ''POST'', req_chunks = [truncated_text]\<rparr>))
     = Inl (JsError ''SyntaxError: JSON Parse error'') \<and>
   statusCode (fst (start_listener demo_proxy (demo_runtime [])
     \<lparr>req_method = ''POST'', req_chunks = [truncated_text]\<rparr> idle)) = 400 \<and>
   body (fst (start_listener demo_proxy (demo_runtime [])
     \<lparr>req_method = ''POST'', req_chunks = [truncated_text]\<rparr> idle)) = parse_error_text"
proof -
  have 1: "JSON_stringify (demo_runtime []) parse_error_envelope = parse_error_text"
    by (simp add: demo_runtime_def json_texts_def parse_error_envelope_def
        send_failed_envelope_def req_balance_def req_send_def req_accounts_def
        balance_reply_def other_id_reply_def bare_reply_def)
  show ?thesis
    using malformed_body_gives_parse_error
      [of "\<lparr>req_method = ''POST'', req_chunks = [truncated_text]\<rparr>" "demo_runtime []"
          "JsError ''SyntaxError: JSON Parse error''" demo_proxy idle]
      1
    by (simp add: demo_parse_texts parse_error_envelope_def)
qed

text \<open>
  C9. When CORS is not enabled, an OPTIONS request is not answered with 200: it is
  answered like every other request that is not a POST, with status 405 and the body
  \<^verbatim>\<open>{"error": "Method not allowed"}\<close>.
\<close>

theorem options_without_cors_is_405:
  assumes "\<not> truthy (enableCors (config this))"
    and "req_method req = ''OPTIONS''"
    and "req_method other \<noteq> ''POST''"
  shows "start_listener this rt req s =
           (\<lparr>statusCode = 405, headers = [(''Content-Type'', ''application/json'')],
             body = JSON_stringify rt (JObj [(''error'', JStr ''Method not allowed'')])\<rparr>, s) \<and>
         start_listener this rt other s = start_listener this rt req s"
  using assms
  by (simp add: start_listener_def Let_def writeHead_def end_response_def setHeader_def
      json_content_def new_response_def)

theorem options_without_cors_is_405_witness:
  "\<not> truthy (enableCors (config demo_proxy)) \<and>
   req_method \<lparr>req_method = ''OPTIONS'', req_chunks = []\<rparr> = ''OPTIONS'' \<and>
   req_method \<lparr>req_method = ''GET'', req_chunks = []\<rparr> \<noteq> ''POST'' \<and>
   start_listener demo_proxy (demo_runtime []) \<lparr>req_method = ''OPTIONS'', req_chunks = []\<rparr> idle =
     (\<lparr>statusCode = 405, headers = [(''Content-Type'', ''application/json'')],
       body = not_allowed_text\<rparr>, idle) \<and>
   start_listener demo_proxy (demo_runtime []) \<lparr>req_method = ''GET'', req_chunks = []\<rparr> idle =
     start_listener demo_proxy (demo_runtime []) \<lparr>req_method = ''OPTIONS'', req_chunks = []\<rparr> idle"
proof -
  have 1: "JSON_stringify (demo_runtime []) (JObj [(''error'', JStr ''Method not allowed'')])
             = not_allowed_text"
    by (simp add: demo_runtime_def json_texts_def parse_error_envelope_def
        send_failed_envelope_def req_balance_def req_send_def req_accounts_def
        balance_reply_def other_id_reply_def bare_reply_def)
  have 2: "\<not> truthy (enableCors (config demo_proxy))"
    by (simp add: truthy_def demo_proxy_def demo_config_def)
  show ?thesis
    using options_without_cors_is_405
      [of demo_proxy "\<lparr>req_method = ''OPTIONS'', req_chunks = []\<rparr>"
          "\<lparr>req_method = ''GET'', req_chunks = []\<rparr>" "demo_runtime []" idle]
      1 2
    by simp
qed

text \<open>
  C10. When CORS is enabled, every response the listener writes, whatever the method and
  the body of the request (the preflight, the answer to a POST, the parse error, the 405),
  carries \<^verbatim>\<open>Access-Control-Allow-Origin: *\<close>, \<^verbatim>\<open>Access-Control-Allow-Methods: POST, OPTIONS\<close>
  and \<^verbatim>\<open>Access-Control-Allow-Headers: Content-Type\<close>.
\<close>

theorem cors_headers_on_every_response:
  assumes "enableCors (config this) = Some True"
  shows "map_of (headers (fst (start_listener this rt req s))) ''Access-Control-Allow-Origin''
           = Some ''*'' \<and>
         map_of (headers (fst (start_listener this rt req s))) ''Access-Control-Allow-Methods''
           = Some ''POST, OPTIONS'' \<and>
         map_of (headers (fst (start_listener this rt req s))) ''Access-Control-Allow-Headers''
           = Some ''Content-Type''"
proof -
  let ?res = "setHeader ''Access-Control-Allow-Headers'' ''Content-Type''
               (setHeader ''Access-Control-Allow-Methods'' ''POST, OPTIONS''
                 (setHeader ''Access-Control-Allow-Origin'' ''*'' new_response))"
  have base: "headers ?res =
      [(''Access-Control-Allow-Origin'', ''*''), (''Access-Control-Allow-Methods'', ''POST, OPTIONS''),
       (''Access-Control-Allow-Headers'', ''Content-Type'')]"
    by (simp add: setHeader_def new_response_def)
  have cors: "truthy (enableCors (config this))"
    using assms by (simp add: truthy_def)
  consider "req_method req = ''OPTIONS''"
    | "req_method req \<noteq> ''OPTIONS''" "req_method req \<noteq> ''POST''"
    | "req_method req = ''POST''"
    by blast
  then have "headers (fst (start_listener this rt req s)) = headers ?res
    \<or> headers (fst (start_listener this rt req s))
        = set_header_list ''Content-Type'' ''application/json'' (headers ?res)"
  proof cases
    case 1
    then show ?thesis
      using cors by (simp add: start_listener_def Let_def response_fields)
  next
    case 2
    then show ?thesis
      using cors by (simp add: start_listener_def Let_def response_fields)
  next
    case 3
    then show ?thesis
      using cors by (simp add: start_listener_def Let_def start_on_end_headers)
  qed
  then show ?thesis
    unfolding base by (elim disjE) simp_all
qed

theorem cors_headers_on_every_response_witness:
  "enableCors (config cors_proxy) = Some True \<and>
   headers (fst (start_listener cors_proxy (demo_runtime [])
     \<lparr>req_method = ''GET'', req_chunks = []\<rparr> idle)) =
     [(''Access-Control-Allow-Origin'', ''*''), (''Access-Control-Allow-Methods'', ''POST, OPTIONS''),
      (''Access-Control-Allow-Headers'', ''Content-Type''), (''Content-Type'', ''application/json'')] \<and>
   map_of (headers (fst (start_listener cors_proxy (demo_runtime [])
     \<lparr>req_method = ''GET'', req_chunks = []\<rparr> idle))) ''Access-Control-Allow-Origin'' = Some ''*'' \<and>
   map_of (headers (fst (start_listener cors_proxy (demo_runtime [])
     \<lparr>req_method = ''GET'', req_chunks = []\<rparr> idle))) ''Access-Control-Allow-Methods''
     = Some ''POST, OPTIONS'' \<and>
   map_of (headers (fst (start_listener cors_proxy (demo_runtime [])
     \<lparr>req_method = ''GET'', req_chunks = []\<rparr> idle))) ''Access-Control-Allow-Headers''
     = Some ''Content-Type''"
proof -
  have 1: "enableCors (config cors_proxy) = Some True"
    by (simp add: cors_proxy_def)
  have 2: "headers (fst (start_listener cors_proxy (demo_runtime [])
     \<lparr>req_method = ''GET'', req_chunks = []\<rparr> idle)) =
     [(''Access-Control-Allow-Origin'', ''*''), (''Access-Control-Allow-Methods'', ''POST, OPTIONS''),
      (''Access-Control-Allow-Headers'', ''Content-Type''), (''Content-Type'', ''application/json'')]"
    by (simp add: start_listener_def Let_def 1 truthy_def response_fields setHeader_def
        new_response_def)
  show ?thesis
    using cors_headers_on_every_response
      [OF 1, of "demo_runtime []" "\<lparr>req_method = ''GET'', req_chunks = []\<rparr>" idle] 1 2
    by simp
qed

end
